theory Spec2Isabelle
  imports Complex_Main "HOL-Library.Multiset"
begin

section \<open>Disentanglement metrics of odin/bay/vi/metrics.py\<close>

text \<open>
  The module is written against numpy, scipy and scikit-learn. Arrays are lists (a matrix is
  the list of its rows, as a numpy literal is written), numbers are exact reals extended with
  the IEEE special values that the code reacts to, and every Python exception is a value of
  \<open>py_error\<close>. Rounding to double precision is not part of the model; overflow is, in
  \<open>relative_strength\<close>, where the code itself produces numbers at the top of the double
  range.
\<close>

subsection \<open>Exceptions\<close>

datatype py_error =
    NameError string      \<comment> \<open>name 'x' is not defined; the argument is the name\<close>
  | ValueError string
  | IndexError string
  | KeyError string

subsection \<open>Arrays and numbers\<close>

text \<open>
  A 2-D array is the list of its rows; \<open>shape0\<close> and \<open>shape1\<close> are numpy's \<open>shape[0]\<close> and
  \<open>shape[1]\<close>, \<open>col m j\<close> is \<open>m[:, j]\<close>. numpy arrays are rectangular by construction, which
  lists are not, hence the predicate \<open>rect\<close>.
\<close>

definition shape0 :: "'a list list \<Rightarrow> nat" where
  "shape0 m = length m"

definition shape1 :: "'a list list \<Rightarrow> nat" where
  "shape1 m = (case m of [] \<Rightarrow> 0 | r # _ \<Rightarrow> length r)"

definition col :: "'a list list \<Rightarrow> nat \<Rightarrow> 'a list" where
  "col m j = map (\<lambda>r. r ! j) m"

definition columns :: "'a list list \<Rightarrow> 'a list list" where
  "columns m = map (col m) [0..<shape1 m]"

definition from_columns :: "nat \<Rightarrow> 'a list list \<Rightarrow> 'a list list" where
  "from_columns n cs = map (\<lambda>r. map (\<lambda>c. c ! r) cs) [0..<n]"

definition rect :: "'a list list \<Rightarrow> bool" where
  "rect m = (\<forall>r \<in> set m. length r = shape1 m)"

datatype 'a ndarray =
    Arr0 'a               \<comment> \<open>a scalar\<close>
  | Arr1 "'a list"
  | Arr2 "'a list list"
  | ArrN                  \<comment> \<open>any array of more than two dimensions\<close>

text \<open>
  A double is an exact real or one of the three special values. Signed zeros and rounding
  are left out: \<open>x / 0\<close> is \<open>+inf\<close> for positive \<open>x\<close>, \<open>-inf\<close> for negative \<open>x\<close> and \<open>nan\<close> for
  \<open>x = 0\<close>. The operations below are exact on the reals; those that can leave the double
  range are introduced with \<open>relative_strength\<close>.
\<close>

datatype npfloat = Fin real | PInf | NInf | NaN


fun fadd :: "npfloat \<Rightarrow> npfloat \<Rightarrow> npfloat" where
  "fadd (Fin a) (Fin b) = Fin (a + b)"
| "fadd NaN _ = NaN"
| "fadd _ NaN = NaN"
| "fadd PInf NInf = NaN"
| "fadd NInf PInf = NaN"
| "fadd PInf _ = PInf"
| "fadd _ PInf = PInf"
| "fadd NInf _ = NInf"
| "fadd _ NInf = NInf"



fun fdiv :: "npfloat \<Rightarrow> npfloat \<Rightarrow> npfloat" where
  "fdiv (Fin a) (Fin b) =
     (if b = 0 then (if a = 0 then NaN else if 0 < a then PInf else NInf) else Fin (a / b))"
| "fdiv NaN _ = NaN"
| "fdiv _ NaN = NaN"
| "fdiv (Fin a) _ = Fin 0"
| "fdiv PInf (Fin b) = (if 0 \<le> b then PInf else NInf)"
| "fdiv NInf (Fin b) = (if 0 \<le> b then NInf else PInf)"
| "fdiv _ _ = NaN"

definition np_divide :: "real \<Rightarrow> real \<Rightarrow> npfloat" where
  "np_divide a b = fdiv (Fin a) (Fin b)"


definition np_sum :: "npfloat list \<Rightarrow> npfloat" where
  "np_sum xs = foldr fadd xs (Fin 0)"

text \<open>\<open>np.mean\<close>: the sum divided by the number of elements; \<open>nan\<close> for an empty array.\<close>

definition np_mean :: "npfloat list \<Rightarrow> npfloat" where
  "np_mean xs = fdiv (np_sum xs) (Fin (real (length xs)))"



text \<open>\<open>np.max\<close> of a non-empty 1-D array.\<close>

definition np_amax :: "real list \<Rightarrow> real" where
  "np_amax xs = fold max (tl xs) (hd xs)"

definition digit_char :: "nat \<Rightarrow> char" where
  "digit_char d = ''0123456789'' ! d"

fun string_of_nat :: "nat \<Rightarrow> string" where
  "string_of_nat n =
     (if 10 \<le> n then string_of_nat (n div 10) @ [digit_char (n mod 10)]
      else [digit_char n])"

definition out_of_bounds :: "nat \<Rightarrow> nat \<Rightarrow> string" where
  "out_of_bounds i n =
     ''index '' @ string_of_nat i @ '' is out of bounds for axis 0 with size '' @ string_of_nat n"

text \<open>\<open>m[i, :]\<close> for a 2-D array.\<close>

definition row_at :: "'a list list \<Rightarrow> nat \<Rightarrow> py_error + 'a list" where
  "row_at m i =
     (if i < shape0 m then Inr (m ! i) else Inl (IndexError (out_of_bounds i (shape0 m))))"

text \<open>Running a fallible function over a list stops at the first exception.\<close>

fun traverse :: "('a \<Rightarrow> py_error + 'b) \<Rightarrow> 'a list \<Rightarrow> py_error + 'b list" where
  "traverse f [] = Inr []"
| "traverse f (x # xs) =
     (case f x of
        Inl e \<Rightarrow> Inl e
      | Inr y \<Rightarrow> (case traverse f xs of Inl e \<Rightarrow> Inl e | Inr ys \<Rightarrow> Inr (y # ys)))"

subsection \<open>Unsupervised clustering scores\<close>

text \<open>
  Lines 77 to 81, on a 2-D array of factors: the minimum and the maximum of every column,
  the rescaling to \<open>[0, 1]\<close> and the position of the largest entry of every row. \<open>np.min\<close>
  raises on an array without rows and \<open>np.argmax\<close> on rows without entries; a constant
  column divides 0 by 0 and gives \<open>nan\<close>, which \<open>np.argmax\<close> treats as the largest value.
\<close>

definition zero_size :: "string \<Rightarrow> string" where
  "zero_size operation =
     ''zero-size array to reduction operation '' @ operation @ '' which has no identity''"

definition np_amin :: "real list \<Rightarrow> real" where
  "np_amin xs = fold min (tl xs) (hd xs)"

fun is_nan :: "npfloat \<Rightarrow> bool" where
  "is_nan NaN = True"
| "is_nan _ = False"

text \<open>\<open>x <= y\<close> on doubles: false as soon as one side is \<open>nan\<close>.\<close>

fun fle :: "npfloat \<Rightarrow> npfloat \<Rightarrow> bool" where
  "fle NaN _ = False"
| "fle _ NaN = False"
| "fle NInf _ = True"
| "fle _ PInf = True"
| "fle (Fin a) (Fin b) = (a \<le> b)"
| "fle _ _ = False"

text \<open>
  The loop of \<open>np.argmax\<close> over one row: \<open>mp\<close> is the largest value so far and \<open>max_ind\<close> its
  position; the loop stops at the first \<open>nan\<close>.
\<close>

fun argmax_loop :: "npfloat list \<Rightarrow> nat \<Rightarrow> npfloat \<Rightarrow> nat \<Rightarrow> nat" where
  "argmax_loop [] i mp max_ind = max_ind"
| "argmax_loop (x # xs) i mp max_ind =
     (if is_nan mp then max_ind
      else if \<not> fle x mp then argmax_loop xs (i + 1) x i
      else argmax_loop xs (i + 1) mp max_ind)"

definition np_argmax :: "npfloat list \<Rightarrow> nat" where
  "np_argmax row = argmax_loop (tl row) 1 (hd row) 0"

definition normalize_argmax :: "real list list \<Rightarrow> py_error + real ndarray" where
  "normalize_argmax factors =
     (if shape0 factors = 0 then Inl (ValueError (zero_size ''minimum''))
      else
        (let vmin = map np_amin (columns factors);
             vmax = map np_amax (columns factors);
             normalized =
               map (\<lambda>row. map (\<lambda>(x, lo, hi). np_divide (x - lo) (hi - lo))
                               (zip row (zip vmin vmax))) factors
         in if shape1 factors = 0 then
              Inl (ValueError ''attempt to get argmax of an empty sequence'')
            else Inr (Arr1 (map (\<lambda>row. real (np_argmax row)) normalized))))"

text \<open>\<open>if factors.ndim == 2: ...\<close>; arrays of any other dimension are left as they are.\<close>

definition label_preprocessing :: "real ndarray \<Rightarrow> py_error + real ndarray" where
  "label_preprocessing factors =
     (case factors of Arr2 m \<Rightarrow> normalize_argmax m | _ \<Rightarrow> Inr factors)"

text \<open>The factors on which lines 77 to 81 raise nothing.\<close>

definition preprocessable :: "real ndarray \<Rightarrow> bool" where
  "preprocessable factors =
     (case factors of Arr2 m \<Rightarrow> 1 \<le> shape0 m \<and> 1 \<le> shape1 m | _ \<Rightarrow> True)"

text \<open>
  The scikit-learn calls are parameters of the model, each of them free to raise; the
  representations are of an abstract type \<open>'r\<close>.
\<close>

record ('r, 'n) externals =
  KMeans_fit_predict :: "'n \<Rightarrow> nat \<Rightarrow> int \<Rightarrow> 'r \<Rightarrow> py_error + real ndarray"
    \<comment> \<open>\<open>KMeans(n, n_init=.., random_state=..).fit_predict(X)\<close>\<close>
  GaussianMixture_fit_predict :: "'n \<Rightarrow> int \<Rightarrow> 'r \<Rightarrow> py_error + real ndarray"
    \<comment> \<open>\<open>GaussianMixture(n, random_state=..)\<close>, \<open>fit(X)\<close>, then \<open>predict(X)\<close>\<close>
  silhouette_score :: "'r \<Rightarrow> real ndarray \<Rightarrow> py_error + real"
  adjusted_rand_score :: "real ndarray \<Rightarrow> real ndarray \<Rightarrow> py_error + real"
  normalized_mutual_info_score :: "real ndarray \<Rightarrow> real ndarray \<Rightarrow> py_error + real"

text \<open>
  The names that metrics.py itself binds at module level (its imports and its function
  definitions), and the names local to \<open>unsupervised_clustering_scores\<close> (its parameters and
  the targets of its assignments).
\<close>

definition module_names :: "string list" where
  "module_names =
    [''absolute_import'', ''division'', ''print_function'', ''warnings'', ''np'', ''sp'',
     ''KMeans'', ''GradientBoostingClassifier'', ''adjusted_mutual_info_score'',
     ''adjusted_rand_score'', ''mutual_info_score'', ''normalized_mutual_info_score'',
     ''silhouette_score'', ''entropy1D'', ''GaussianMixture'', ''catch_warnings_ignore'',
     ''MPI'', ''get_cpu_count'', ''__all__'', ''unsupervised_clustering_scores'',
     ''discrete_mutual_info'', ''discrete_entropy'', ''mutual_info_estimate'',
     ''mutual_info_gap'', ''disentanglement_score'', ''completeness_score'',
     ''representative_importance_matrix'', ''dci_scores'', ''relative_strength'']"

definition local_names :: "string list" where
  "local_names =
    [''representations'', ''factors'', ''prediction_algorithm'', ''seed'', ''vmin'', ''vmax'',
     ''km'', ''factors_pred'', ''gmm'', ''score1'', ''score2'', ''asw_score'', ''ari_score'',
     ''nmi_score'', ''uca_score'']"

text \<open>
  Three names that the function reads are in neither list: \<open>n_factors\<close>,
  \<open>clustering_scores\<close> and \<open>unsupervised_clustering_accuracy\<close>. The only other place that
  can bind them is \<open>from odin.bay.vi.downstream_metrics import *\<close>, a module that is not
  among the sources; what it binds is a parameter, \<open>None\<close> standing for a name it does not
  export.
\<close>

record ('r, 'n) star_import =
  n_factors :: "'n option"
  clustering_scores ::
    "('r \<Rightarrow> real ndarray \<Rightarrow> 'n \<Rightarrow> string \<Rightarrow> py_error + (string \<times> real) list) option"
  unsupervised_clustering_accuracy ::
    "(real ndarray \<Rightarrow> real ndarray \<Rightarrow> py_error + real list) option"

definition read_global :: "string \<Rightarrow> 'v option \<Rightarrow> py_error + 'v" where
  "read_global name binding =
     (case binding of None \<Rightarrow> Inl (NameError name) | Some v \<Rightarrow> Inr v)"

text \<open>A dict is an association list (Python dicts keep insertion order).\<close>

fun dict_average ::
  "(string \<times> real) list \<Rightarrow> (string \<times> real) list \<Rightarrow> py_error + (string \<times> real) list" where
  "dict_average [] score2 = Inr []"
| "dict_average ((k, v) # score1) score2 =
     (case map_of score2 k of
        None \<Rightarrow> Inl (KeyError k)
      | Some w \<Rightarrow>
          (case dict_average score1 score2 of
             Inl e \<Rightarrow> Inl e
           | Inr d \<Rightarrow> Inr ((k, (v + w) / 2) # d)))"

definition unsupported_message :: "string \<Rightarrow> string" where
  "unsupported_message prediction_algorithm =
     ''Not support for prediction_algorithm: '' @ [CHR 0x27] @ prediction_algorithm @ [CHR 0x27]"

text \<open>Lines 103 to 108: the four scores of one prediction.\<close>

definition clustering_metrics ::
  "('r, 'n) externals \<Rightarrow> ('r, 'n) star_import \<Rightarrow> 'r \<Rightarrow> real ndarray \<Rightarrow> real ndarray
     \<Rightarrow> py_error + (string \<times> real) list" where
  "clustering_metrics L G representations factors factors_pred =
     (case silhouette_score L representations factors of
        Inl e \<Rightarrow> Inl e
      | Inr asw_score \<Rightarrow>
     (case adjusted_rand_score L factors factors_pred of
        Inl e \<Rightarrow> Inl e
      | Inr ari_score \<Rightarrow>
     (case normalized_mutual_info_score L factors factors_pred of
        Inl e \<Rightarrow> Inl e
      | Inr nmi_score \<Rightarrow>
     (case read_global ''unsupervised_clustering_accuracy''
             (unsupervised_clustering_accuracy G) of
        Inl e \<Rightarrow> Inl e
      | Inr uca \<Rightarrow>
     (case uca factors factors_pred of
        Inl e \<Rightarrow> Inl e
      | Inr [] \<Rightarrow> Inl (IndexError ''tuple index out of range'')
      | Inr (uca_score # _) \<Rightarrow>
          Inr [(''ASW'', asw_score), (''ARI'', ari_score),
               (''NMI'', nmi_score), (''UCA'', uca_score)])))))"

definition unsupervised_clustering_scores ::
  "('r, 'n) externals \<Rightarrow> ('r, 'n) star_import \<Rightarrow> 'r \<Rightarrow> real ndarray \<Rightarrow> string \<Rightarrow> int
     \<Rightarrow> py_error + (string \<times> real) list" where
  "unsupervised_clustering_scores L G representations factors0 prediction_algorithm seed =
     (case label_preprocessing factors0 of
        Inl e \<Rightarrow> Inl e
      | Inr factors \<Rightarrow>
         if prediction_algorithm = ''knn'' then
           (case read_global ''n_factors'' (n_factors G) of
              Inl e \<Rightarrow> Inl e
            | Inr n \<Rightarrow>
                (case KMeans_fit_predict L n 200 seed representations of
                   Inl e \<Rightarrow> Inl e
                 | Inr factors_pred \<Rightarrow>
                     clustering_metrics L G representations factors factors_pred))
         else if prediction_algorithm = ''gmm'' then
           (case read_global ''n_factors'' (n_factors G) of
              Inl e \<Rightarrow> Inl e
            | Inr n \<Rightarrow>
                (case GaussianMixture_fit_predict L n seed representations of
                   Inl e \<Rightarrow> Inl e
                 | Inr factors_pred \<Rightarrow>
                     clustering_metrics L G representations factors factors_pred))
         else if prediction_algorithm = ''both'' then
           (case read_global ''clustering_scores'' (clustering_scores G) of
              Inl e \<Rightarrow> Inl e
            | Inr cs \<Rightarrow>
                (case read_global ''n_factors'' (n_factors G) of
                   Inl e \<Rightarrow> Inl e
                 | Inr n \<Rightarrow>
                     (case cs representations factors n ''knn'' of
                        Inl e \<Rightarrow> Inl e
                      | Inr score1 \<Rightarrow>
                          (case cs representations factors n ''gmm'' of
                             Inl e \<Rightarrow> Inl e
                           | Inr score2 \<Rightarrow> dict_average score1 score2))))
         else Inl (ValueError (unsupported_message prediction_algorithm)))"

text \<open>
  A concrete instance for evaluating the function: the two clusterings put every sample in
  cluster 0, every score is 0, and the star import binds none of the three names.
\<close>

definition toy_externals :: "(real list list, nat) externals" where
  "toy_externals =
     \<lparr> KMeans_fit_predict = (\<lambda>n i s X. Inr (Arr1 (map (\<lambda>_. 0) X))),
       GaussianMixture_fit_predict = (\<lambda>n s X. Inr (Arr1 (map (\<lambda>_. 0) X))),
       silhouette_score = (\<lambda>X y. Inr 0), adjusted_rand_score = (\<lambda>a b. Inr 0),
       normalized_mutual_info_score = (\<lambda>a b. Inr 0) \<rparr>"

definition no_exports :: "(real list list, nat) star_import" where
  "no_exports =
     \<lparr> n_factors = None, clustering_scores = None, unsupervised_clustering_accuracy = None \<rparr>"

subsection \<open>Discrete mutual information and entropy\<close>

text \<open>
  The two scikit-learn functions that the module calls, after their implementation in the
  releases contemporary with the module (0.22):
  \<open>sklearn.metrics.cluster.entropy\<close> (imported as \<open>entropy1D\<close>) and
  \<open>sklearn.metrics.mutual_info_score\<close>, both in natural logarithms. \<open>np_unique\<close> gives the
  sorted distinct labels, \<open>contingency\<close> the number of samples with a given pair of labels.
  \<open>mutual_info_score\<close> rejects label vectors of different lengths, and on two empty vectors
  it takes \<open>math.log\<close> of the zero sum of the contingency table, which raises.
\<close>

definition np_unique :: "int list \<Rightarrow> int list" where
  "np_unique xs = sort (remdups xs)"

definition entropy1D :: "int list \<Rightarrow> real" where
  "entropy1D labels =
     (if length labels = 0 then 1
      else
        (let counts = map (\<lambda>u. real (count_list labels u)) (np_unique labels);
             pi_sum = sum_list counts
         in - sum_list (map (\<lambda>c. (c / pi_sum) * (ln c - ln pi_sum)) counts)))"

definition contingency :: "int list \<Rightarrow> int list \<Rightarrow> int \<Rightarrow> int \<Rightarrow> nat" where
  "contingency labels_true labels_pred u v =
     length (filter (\<lambda>(a, b). a = u \<and> b = v) (zip labels_true labels_pred))"

definition mutual_info_score :: "int list \<Rightarrow> int list \<Rightarrow> py_error + real" where
  "mutual_info_score labels_true labels_pred =
     (if length labels_true \<noteq> length labels_pred then
        Inl (ValueError ''Found input variables with inconsistent numbers of samples'')
      else if length labels_true = 0 then Inl (ValueError ''math domain error'')
      else
        (let contingency_sum = real (length labels_true);
             pi_sum = sum_list (map (\<lambda>u. real (count_list labels_true u))
                                    (np_unique labels_true));
             pj_sum = sum_list (map (\<lambda>v. real (count_list labels_pred v))
                                    (np_unique labels_pred));
             nz = filter (\<lambda>(u, v). 0 < contingency labels_true labels_pred u v)
                    (List.product (np_unique labels_true) (np_unique labels_pred));
             mi = map (\<lambda>(u, v).
                    (let nz_val = real (contingency labels_true labels_pred u v);
                         contingency_nm = nz_val / contingency_sum;
                         log_contingency_nm = ln nz_val;
                         outer = real (count_list labels_true u)
                                   * real (count_list labels_pred v);
                         log_outer = - ln outer + ln pi_sum + ln pj_sum
                     in contingency_nm * (log_contingency_nm - ln contingency_sum)
                          + contingency_nm * log_outer)) nz
         in Inr (sum_list mi)))"

text \<open>
  The arguments of \<open>discrete_mutual_info\<close> are 2-D arrays, for which \<open>np.atleast_2d\<close> changes
  nothing and the assertion on \<open>ndim\<close> holds. The two loops fill \<open>m\<close> row by row.
\<close>

definition discrete_mutual_info ::
  "int list list \<Rightarrow> int list list \<Rightarrow> py_error + real list list" where
  "discrete_mutual_info codes factors =
     (let num_latents = shape1 codes;
          num_factors = shape1 factors
      in traverse
           (\<lambda>i. traverse (\<lambda>j. mutual_info_score (col factors j) (col codes i))
                   [0..<num_factors])
           [0..<num_latents])"

text \<open>The loop of \<open>discrete_entropy\<close> over the columns of a 2-D array.\<close>

definition entropy_columns :: "int list list \<Rightarrow> real list" where
  "entropy_columns labels = map (\<lambda>j. entropy1D (col labels j)) [0..<shape1 labels]"


subsection \<open>Mutual information gap\<close>

text \<open>\<open>np.sort(m, axis=0)\<close> sorts every column in ascending order.\<close>

definition np_sort_axis0 :: "real list list \<Rightarrow> real list list" where
  "np_sort_axis0 m = from_columns (shape0 m) (map sort (columns m))"

text \<open>
  Lines 230 to 232: what \<open>mutual_info_gap\<close> does with the matrix \<open>m\<close> of mutual
  information, \<open>[n_latents, n_factors]\<close>.
\<close>

definition gap_of_mi :: "real list list \<Rightarrow> int list list \<Rightarrow> py_error + npfloat" where
  "gap_of_mi m factors =
     (let sorted_m = rev (np_sort_axis0 m);
          entropy' = entropy_columns factors
      in case row_at sorted_m 0 of
           Inl e \<Rightarrow> Inl e
         | Inr best \<Rightarrow>
             (case row_at sorted_m 1 of
                Inl e \<Rightarrow> Inl e
              | Inr second \<Rightarrow>
                  Inr (np_mean (map2 np_divide (map2 (-) best second) entropy'))))"

text \<open>
  The arguments are integer matrices, on which \<open>np.atleast_2d\<close> and \<open>astype(np.int64)\<close> change
  nothing; \<open>discrete_entropy\<close> is therefore always in its 2-D branch.
\<close>

definition mutual_info_gap :: "int list list \<Rightarrow> int list list \<Rightarrow> py_error + npfloat" where
  "mutual_info_gap representations factors =
     (case discrete_mutual_info representations factors of
        Inl e \<Rightarrow> Inl e
      | Inr m \<Rightarrow> gap_of_mi m factors)"

text \<open>\<open>representations[:, perm]\<close>: the code columns in the order given by \<open>perm\<close>.\<close>

definition permute_cols :: "nat list \<Rightarrow> 'a list list \<Rightarrow> 'a list list" where
  "permute_cols perm m = map (\<lambda>row. map (\<lambda>i. row ! i) perm) m"

text \<open>
  The matrix that \<open>discrete_mutual_info\<close> returns when no call of \<open>mutual_info_score\<close>
  raises.
\<close>

definition mi_matrix :: "int list list \<Rightarrow> int list list \<Rightarrow> real list list" where
  "mi_matrix codes factors =
     map (\<lambda>i. map (\<lambda>j. projr (mutual_info_score (col factors j) (col codes i)))
                [0..<shape1 factors])
       [0..<shape1 codes]"

text \<open>
  The gap as the specification words it: per factor, the largest entry of the factor's column
  of mutual information minus the second-largest entry (the largest of the others, so equal
  to the largest when two codes tie), over the entropy of the factor; then the mean.
\<close>

definition largest :: "real list \<Rightarrow> real" where
  "largest xs = Max (set xs)"

definition second_largest :: "real list \<Rightarrow> real" where
  "second_largest xs = Max (set (remove1 (Max (set xs)) xs))"

definition mig_formula :: "real list list \<Rightarrow> int list list \<Rightarrow> npfloat" where
  "mig_formula m factors =
     np_mean (map (\<lambda>j. np_divide (largest (col m j) - second_largest (col m j))
                            (entropy1D (col factors j)))
                [0..<shape1 factors])"

subsection \<open>Disentanglement and completeness\<close>




definition ones_like :: "real list list \<Rightarrow> real list list" where
  "ones_like m = map (map (\<lambda>_. 1)) m"









text \<open>
  What the code computes, in real numbers: the entropy is that of the line with \<open>1e-11\<close>
  added to every entry, and the weights are uniform when the matrix sums to zero.
\<close>

definition smoothed :: "real list \<Rightarrow> real list" where
  "smoothed line = map (\<lambda>x. x + 1 / 10 ^ 11) line"





text \<open>
  The diagonal matrix with the given diagonal, and the entropy, in base \<open>n\<close>, of one of its
  rows after smoothing: one entry \<open>a + 1e-11\<close> and \<open>n - 1\<close> entries \<open>1e-11\<close>.
\<close>

definition diag_matrix :: "real list \<Rightarrow> real list list" where
  "diag_matrix as =
     map (\<lambda>i. map (\<lambda>j. if i = j then as ! i else 0) [0..<length as]) [0..<length as]"


subsection \<open>Relative strength\<close>
















definition identity_matrix :: "nat \<Rightarrow> real list list" where
  "identity_matrix n = map (\<lambda>i. map (\<lambda>j. if i = j then 1 else 0) [0..<n]) [0..<n]"

subsection \<open>Facts about the clustering scores\<close>

lemma names_not_bound_in_metrics:
  "''n_factors'' \<notin> set module_names \<union> set local_names"
  "''clustering_scores'' \<notin> set module_names \<union> set local_names"
  "''unsupervised_clustering_accuracy'' \<notin> set module_names \<union> set local_names"
  by (simp_all add: module_names_def local_names_def)

lemma label_preprocessing_succeeds:
  assumes "preprocessable factors"
  shows "\<exists>labels. label_preprocessing factors = Inr labels"
  using assms
  by (cases factors)
     (auto simp: preprocessable_def label_preprocessing_def normalize_argmax_def Let_def)

lemma label_preprocessing_zero_rows:
  "label_preprocessing (Arr2 []) = Inl (ValueError (zero_size ''minimum''))"
  by (simp add: label_preprocessing_def normalize_argmax_def shape0_def)

text \<open>
  C1. With \<open>prediction_algorithm = 'both'\<close> the function is meant to return the four scores
  averaged over k-means and the Gaussian mixture. On the sources as they are it raises
  NameError instead: at representations \<open>[[0], [1]]\<close> and factors \<open>[0, 1]\<close>, with no name
  supplied by the star import, the call ends in \<open>NameError: name 'clustering_scores' is not
  defined\<close>.
\<close>

theorem both_raises_NameError:
  "unsupervised_clustering_scores toy_externals no_exports [[0], [1]] (Arr1 [0, 1]) ''both'' 1
     = Inl (NameError ''clustering_scores'')"
  by (simp add: unsupervised_clustering_scores_def label_preprocessing_def read_global_def
        no_exports_def)

text \<open>
  C8, as the claim words it, fails when the factors are a 2-D array without rows:
  \<open>np.min\<close> of line 78 raises its own \<open>ValueError\<close> before the algorithm name is looked at,
  and the message does not contain the name.
\<close>

theorem unsupported_algorithm_zero_rows:
  "unsupervised_clustering_scores toy_externals no_exports [] (Arr2 []) ''kmeans'' 1
     = Inl (ValueError ''zero-size array to reduction operation minimum which has no identity'')
   \<and> unsupervised_clustering_scores toy_externals no_exports [] (Arr2 []) ''kmeans'' 1
     \<noteq> Inl (ValueError (''Not support for prediction_algorithm: '' @ [CHR 0x27]
                            @ ''kmeans'' @ [CHR 0x27]))"
  by (simp add: unsupervised_clustering_scores_def label_preprocessing_zero_rows zero_size_def)

text \<open>
  C8, as the code has it. Whenever the preprocessing of the factors raises nothing (they are
  not 2-D, or they are 2-D with at least one row and one column), a \<open>prediction_algorithm\<close>
  other than \<open>'knn'\<close>, \<open>'gmm'\<close> and \<open>'both'\<close> makes the function raise \<open>ValueError\<close> with the
  message \<open>Not support for prediction_algorithm: '<name>'\<close>, whatever the clustering routines
  and the other arguments are: none of them is consulted.
\<close>

theorem unsupported_algorithm_raises:
  assumes "preprocessable factors"
    and "prediction_algorithm \<notin> {''knn'', ''gmm'', ''both''}"
  shows "unsupervised_clustering_scores L G representations factors prediction_algorithm seed
           = Inl (ValueError (''Not support for prediction_algorithm: '' @ [CHR 0x27]
                                @ prediction_algorithm @ [CHR 0x27]))"
proof -
  obtain labels where "label_preprocessing factors = Inr labels"
    using label_preprocessing_succeeds[OF assms(1)] by blast
  then show ?thesis
    using assms(2) by (simp add: unsupervised_clustering_scores_def unsupported_message_def)
qed

theorem unsupported_algorithm_raises_witness:
  "preprocessable (Arr2 [[0, 1], [1, 0]]) \<and> ''kmeans'' \<notin> {''knn'', ''gmm'', ''both''} \<and>
   unsupervised_clustering_scores toy_externals no_exports [[0], [1]] (Arr2 [[0, 1], [1, 0]])
       ''kmeans'' 1
     = Inl (ValueError (''Not support for prediction_algorithm: '' @ [CHR 0x27]
                          @ ''kmeans'' @ [CHR 0x27]))"
proof -
  have p: "preprocessable (Arr2 [[0, 1], [1, 0]])"
    by (simp add: preprocessable_def shape0_def shape1_def)
  have a: "''kmeans'' \<notin> {''knn'', ''gmm'', ''both''}" by simp
  from unsupported_algorithm_raises[OF p a, of toy_externals no_exports "[[0], [1]]" 1] p a
  show ?thesis by blast
qed

text \<open>
  C10, as the claim words it, fails when the factors are a 2-D array without rows: the call
  with \<open>'knn'\<close> ends in the \<open>ValueError\<close> of \<open>np.min\<close>, line 78, not in a NameError.
\<close>

theorem supported_algorithm_zero_rows:
  "unsupervised_clustering_scores toy_externals no_exports [] (Arr2 []) ''knn'' 1
     = Inl (ValueError ''zero-size array to reduction operation minimum which has no identity'')"
  by (simp add: unsupervised_clustering_scores_def label_preprocessing_zero_rows zero_size_def)

text \<open>
  C10, as the code has it. When the star import does not supply \<open>n_factors\<close>, the function
  never returns the dict of scores for \<open>'knn'\<close>, \<open>'gmm'\<close> or \<open>'both'\<close>; whenever the
  preprocessing of the factors raises nothing, the exception is a NameError: \<open>'knn'\<close> and
  \<open>'gmm'\<close> at \<open>n_factors\<close>, \<open>'both'\<close> at \<open>clustering_scores\<close> or, should that name be bound, at
  \<open>n_factors\<close>.
\<close>

theorem supported_algorithms_raise_NameError:
  assumes "n_factors G = None"
    and "prediction_algorithm \<in> {''knn'', ''gmm'', ''both''}"
  shows "(preprocessable factors \<longrightarrow>
            unsupervised_clustering_scores L G representations factors prediction_algorithm seed
              = (if prediction_algorithm = ''both'' \<and> clustering_scores G = None
                 then Inl (NameError ''clustering_scores'')
                 else Inl (NameError ''n_factors'')))
         \<and> (\<forall>scores.
              unsupervised_clustering_scores L G representations factors prediction_algorithm
                seed \<noteq> Inr scores)"
proof (intro conjI impI allI)
  assume "preprocessable factors"
  then obtain labels where "label_preprocessing factors = Inr labels"
    using label_preprocessing_succeeds by blast
  then show "unsupervised_clustering_scores L G representations factors prediction_algorithm
               seed
             = (if prediction_algorithm = ''both'' \<and> clustering_scores G = None
                then Inl (NameError ''clustering_scores'')
                else Inl (NameError ''n_factors''))"
    using assms
    by (auto simp: unsupervised_clustering_scores_def read_global_def split: option.splits)
next
  fix scores
  show "unsupervised_clustering_scores L G representations factors prediction_algorithm seed
          \<noteq> Inr scores"
    using assms
    by (auto simp: unsupervised_clustering_scores_def read_global_def
             split: option.splits sum.splits)
qed

theorem supported_algorithms_raise_NameError_witness:
  "n_factors no_exports = None \<and> ''knn'' \<in> {''knn'', ''gmm'', ''both''} \<and>
   preprocessable (Arr2 [[0, 1], [1, 0]]) \<and>
   unsupervised_clustering_scores toy_externals no_exports [[0], [1]] (Arr2 [[0, 1], [1, 0]])
       ''knn'' 1
     = Inl (NameError ''n_factors'')"
proof -
  have n: "n_factors no_exports = None" by (simp add: no_exports_def)
  have a: "''knn'' \<in> {''knn'', ''gmm'', ''both''}" by simp
  have p: "preprocessable (Arr2 [[0, 1], [1, 0]])"
    by (simp add: preprocessable_def shape0_def shape1_def)
  have k: "''knn'' \<noteq> ''both''" by simp
  from supported_algorithms_raise_NameError
         [OF n a, of "Arr2 [[0, 1], [1, 0]]" toy_externals "[[0], [1]]" 1] n a p k
  show ?thesis by simp
qed

subsection \<open>Facts about the discrete estimators\<close>









lemma traverse_Inr:
  "(\<And>x. x \<in> set xs \<Longrightarrow> f x = Inr (g x)) \<Longrightarrow> traverse f xs = Inr (map g xs)"
  by (induction xs) simp_all

lemma length_col [simp]: "length (col m j) = length m"
  by (simp add: col_def)

lemma mutual_info_score_total:
  "length a = length b \<Longrightarrow> a \<noteq> [] \<Longrightarrow>
     mutual_info_score a b = Inr (projr (mutual_info_score a b))"
  by (auto simp: mutual_info_score_def Let_def)

lemma discrete_mutual_info_Inr:
  assumes "shape0 codes = shape0 factors"
  shows "discrete_mutual_info codes factors = Inr (mi_matrix codes factors)"
proof (cases "codes = []")
  case True
  then show ?thesis
    by (simp add: discrete_mutual_info_def mi_matrix_def shape1_def)
next
  case False
  then have "factors \<noteq> []" using assms by (auto simp: shape0_def)
  then have ne: "col factors j \<noteq> []" for j by (simp add: col_def)
  have len: "length (col factors j) = length (col codes i)" for i j
    using assms by (simp add: shape0_def)
  show ?thesis
    unfolding discrete_mutual_info_def mi_matrix_def Let_def
    by (intro traverse_Inr mutual_info_score_total len ne)
qed

lemma discrete_mutual_info_mismatch:
  assumes "shape0 codes \<noteq> shape0 factors"
  shows "discrete_mutual_info codes factors =
           (if shape1 codes = 0 then Inr []
            else if shape1 factors = 0 then Inr (replicate (shape1 codes) [])
            else Inl (ValueError ''Found input variables with inconsistent numbers of samples''))"
proof -
  let ?e = "ValueError ''Found input variables with inconsistent numbers of samples''"
  have bad: "mutual_info_score (col factors j) (col codes i) = Inl ?e" for i j
    using assms by (simp add: mutual_info_score_def shape0_def)
  show ?thesis
  proof (cases "shape1 codes = 0")
    case True
    then show ?thesis by (simp add: discrete_mutual_info_def)
  next
    case d: False
    show ?thesis
    proof (cases "shape1 factors = 0")
      case True
      have "traverse (\<lambda>i. Inr [] :: py_error + real list) [0..<shape1 codes]
              = Inr (map (\<lambda>i. []) [0..<shape1 codes])"
        by (rule traverse_Inr) simp
      with True d show ?thesis
        by (simp add: discrete_mutual_info_def map_replicate_const)
    next
      case False
      then have k: "[0..<shape1 factors] = 0 # [1..<shape1 factors]"
        by (simp add: upt_conv_Cons)
      from d have dd: "[0..<shape1 codes] = 0 # [1..<shape1 codes]"
        by (simp add: upt_conv_Cons)
      show ?thesis
        using d False
        by (simp add: discrete_mutual_info_def Let_def) (simp add: k dd bad)
    qed
  qed
qed

lemma mutual_info_gap_gap_of_mi:
  "mutual_info_gap representations factors =
     (case discrete_mutual_info representations factors of
        Inl e \<Rightarrow> Inl e | Inr m \<Rightarrow> gap_of_mi m factors)"
  by (simp add: mutual_info_gap_def)

lemma sort_snoc_Max:
  fixes xs :: "real list"
  assumes "xs \<noteq> []"
  shows "sort xs = sort (remove1 (Max (set xs)) xs) @ [Max (set xs)]"
proof -
  let ?M = "Max (set xs)"
  have M: "?M \<in> set xs" using assms by (simp add: Max_in)
  have "mset (sort (remove1 ?M xs) @ [?M]) = mset xs"
    using M by simp
  moreover have "sorted (sort (remove1 ?M xs) @ [?M])"
  proof -
    have "x \<le> ?M" if "x \<in> set (remove1 ?M xs)" for x
    proof -
      have "x \<in> set xs" using that set_remove1_subset[of ?M xs] by blast
      then show ?thesis by simp
    qed
    then show ?thesis by (simp add: sorted_append)
  qed
  ultimately show ?thesis
    by (metis properties_for_sort)
qed

lemma last_sort:
  fixes xs :: "real list"
  assumes "xs \<noteq> []"
  shows "sort xs ! (length xs - 1) = largest xs"
  using sort_snoc_Max[OF assms]
  by (metis largest_def length_sort nth_append_length length_append_singleton diff_Suc_1)

lemma second_last_sort:
  fixes xs :: "real list"
  assumes "2 \<le> length xs"
  shows "sort xs ! (length xs - 2) = second_largest xs"
proof -
  let ?M = "Max (set xs)"
  let ?ys = "remove1 ?M xs"
  have ne: "xs \<noteq> []" using assms by auto
  have M: "?M \<in> set xs" using ne by (simp add: Max_in)
  have len: "length ?ys = length xs - 1"
    using M by (simp add: length_remove1)
  then have ys: "?ys \<noteq> []" using assms by auto
  have "sort xs ! (length xs - 2) = (sort ?ys @ [?M]) ! (length ?ys - 1)"
    using sort_snoc_Max[OF ne] len by (simp add: numeral_2_eq_2)
  also have "\<dots> = sort ?ys ! (length ?ys - 1)"
    using ys by (simp add: nth_append)
  also have "\<dots> = largest ?ys"
    by (rule last_sort[OF ys])
  finally show ?thesis
    by (simp add: largest_def second_largest_def)
qed


lemma map2_maps:
  "map2 h (map f xs) (map g xs) = map (\<lambda>x. h (f x) (g x)) xs"
  by (induction xs) simp_all

lemma shape1_nonempty:
  "m \<noteq> [] \<Longrightarrow> \<forall>r\<in>set m. length r = k \<Longrightarrow> shape1 m = k"
  by (cases m) (simp_all add: shape1_def)

lemma length_np_sort_axis0 [simp]: "length (np_sort_axis0 m) = length m"
  by (simp add: np_sort_axis0_def from_columns_def shape0_def)

lemma np_sort_axis0_Nil_iff [simp]: "np_sort_axis0 m = [] \<longleftrightarrow> m = []"
  using length_np_sort_axis0[of m] by (metis length_0_conv)

lemma row_at_rev_sorted:
  assumes "i < length m"
  shows "row_at (rev (np_sort_axis0 m)) i = Inr (np_sort_axis0 m ! (length m - Suc i))"
  using assms by (simp add: row_at_def shape0_def rev_nth)

lemma row_at_rev_sorted_out:
  assumes "\<not> i < length m"
  shows "row_at (rev (np_sort_axis0 m)) i = Inl (IndexError (out_of_bounds i (length m)))"
  using assms by (simp add: row_at_def shape0_def)

lemma np_sort_axis0_nth:
  assumes "r < length m"
  shows "np_sort_axis0 m ! r = map (\<lambda>j. sort (col m j) ! r) [0..<shape1 m]"
  using assms
  by (simp add: np_sort_axis0_def from_columns_def shape0_def columns_def comp_def)

lemma gap_of_mi_formula:
  assumes d: "2 \<le> length m" and k: "\<forall>r\<in>set m. length r = shape1 factors"
  shows "gap_of_mi m factors = Inr (mig_formula m factors)"
proof -
  let ?d = "length m"
  have ne: "m \<noteq> []" using d by auto
  have k': "shape1 m = shape1 factors"
    using shape1_nonempty[OF ne k] .
  have i0: "0 < length m" and i1: "1 < length m" using d by auto
  have best: "row_at (rev (np_sort_axis0 m)) 0
                = Inr (map (\<lambda>j. largest (col m j)) [0..<shape1 factors])"
  proof -
    have "row_at (rev (np_sort_axis0 m)) 0 = Inr (np_sort_axis0 m ! (?d - 1))"
      using row_at_rev_sorted[OF i0] by simp
    also have "np_sort_axis0 m ! (?d - 1) = map (\<lambda>j. sort (col m j) ! (?d - 1)) [0..<shape1 m]"
      using d by (intro np_sort_axis0_nth) simp
    also have "\<dots> = map (\<lambda>j. largest (col m j)) [0..<shape1 factors]"
      unfolding k'
    proof (rule map_cong[OF refl])
      fix j
      have "col m j \<noteq> []" using ne by (simp add: col_def)
      from last_sort[OF this] show "sort (col m j) ! (?d - 1) = largest (col m j)"
        by simp
    qed
    finally show ?thesis .
  qed
  have second: "row_at (rev (np_sort_axis0 m)) 1
                = Inr (map (\<lambda>j. second_largest (col m j)) [0..<shape1 factors])"
  proof -
    have "row_at (rev (np_sort_axis0 m)) 1 = Inr (np_sort_axis0 m ! (?d - 2))"
      using row_at_rev_sorted[OF i1] by (simp add: numeral_2_eq_2)
    also have "np_sort_axis0 m ! (?d - 2) = map (\<lambda>j. sort (col m j) ! (?d - 2)) [0..<shape1 m]"
      using d by (intro np_sort_axis0_nth) simp
    also have "\<dots> = map (\<lambda>j. second_largest (col m j)) [0..<shape1 factors]"
      unfolding k'
    proof (rule map_cong[OF refl])
      fix j
      have "2 \<le> length (col m j)" using d by simp
      from second_last_sort[OF this]
      show "sort (col m j) ! (?d - 2) = second_largest (col m j)"
        by simp
    qed
    finally show ?thesis .
  qed
  show ?thesis
    unfolding gap_of_mi_def Let_def best second
    by (simp add: mig_formula_def entropy_columns_def map2_maps del: upt_Suc)
qed

lemma gap_of_mi_short:
  assumes "length m = 1"
  shows "gap_of_mi m factors = Inl (IndexError (out_of_bounds 1 1))"
  using assms by (simp add: gap_of_mi_def Let_def row_at_rev_sorted row_at_rev_sorted_out)

lemma gap_of_mi_Inr_length:
  assumes "gap_of_mi m factors = Inr v"
  shows "2 \<le> length m"
proof (rule ccontr)
  assume "\<not> 2 \<le> length m"
  then have "length m = 0 \<or> length m = 1" by arith
  then show False
    using assms by (auto simp: gap_of_mi_def Let_def row_at_rev_sorted row_at_rev_sorted_out)
qed

lemma traverse_length:
  "traverse f xs = Inr ys \<Longrightarrow> length ys = length xs"
  by (induction xs arbitrary: ys) (auto split: sum.splits)

lemma discrete_mutual_info_length:
  "discrete_mutual_info codes factors = Inr m \<Longrightarrow> length m = shape1 codes"
  by (auto simp: discrete_mutual_info_def Let_def dest: traverse_length)

lemma length_mi_matrix [simp]: "length (mi_matrix codes factors) = shape1 codes"
  by (simp add: mi_matrix_def)

lemma rows_mi_matrix:
  "\<forall>r\<in>set (mi_matrix codes factors). length r = shape1 factors"
  by (auto simp: mi_matrix_def)




subsection \<open>Facts about the mutual information gap\<close>

text \<open>
  C3, as the claim words it, fails when the two matrices differ in their number of rows: with
  two rows of codes and one row of factors, \<open>mutual_info_score\<close> raises at line 135 and no
  gap is computed. It raises as well on the columns of matrices without rows, which are empty
  label vectors.
\<close>

theorem mutual_info_gap_row_mismatch:
  "mutual_info_gap [[0, 0], [1, 1]] [[0]]
     = Inl (ValueError ''Found input variables with inconsistent numbers of samples'') \<and>
   mutual_info_score [] [] = Inl (ValueError ''math domain error'')"
  by (simp add: mutual_info_gap_def discrete_mutual_info_def shape1_def col_def
        mutual_info_score_def upt_conv_Cons)

text \<open>
  C3, as the code has it. For representations and factors with the same number of rows, at
  least one, and at least two code columns, \<open>discrete_mutual_info\<close> returns the matrix
  \<open>mi_matrix\<close> of the mutual information of every code with every factor, and
  \<open>mutual_info_gap\<close> returns the mean over the factors \<open>j\<close> of
  \<open>(largest - second largest) / entropy\<close>, taken on column \<open>j\<close> of that matrix and on the
  entropy of factor \<open>j\<close>.
\<close>

theorem mutual_info_gap_is_formula:
  assumes "shape0 representations = shape0 factors" and "1 \<le> shape0 representations"
    and "2 \<le> shape1 representations"
  shows "discrete_mutual_info representations factors
           = Inr (mi_matrix representations factors) \<and>
         mutual_info_gap representations factors
           = Inr (mig_formula (mi_matrix representations factors) factors)"
proof -
  let ?m = "mi_matrix representations factors"
  have "discrete_mutual_info representations factors = Inr ?m"
    using assms(1) by (rule discrete_mutual_info_Inr)
  moreover have "gap_of_mi ?m factors = Inr (mig_formula ?m factors)"
    using assms(3) by (intro gap_of_mi_formula rows_mi_matrix) simp
  ultimately show ?thesis
    by (simp add: mutual_info_gap_gap_of_mi)
qed

theorem mutual_info_gap_is_formula_witness:
  "shape0 [[0, 0], [0, 1], [1, 0], [1, 1::int]] = shape0 [[0], [0], [1], [1::int]] \<and>
   1 \<le> shape0 [[0, 0], [0, 1], [1, 0], [1, 1::int]] \<and>
   2 \<le> shape1 [[0, 0], [0, 1], [1, 0], [1, 1::int]] \<and>
   discrete_mutual_info [[0, 0], [0, 1], [1, 0], [1, 1]] [[0], [0], [1], [1]]
     = Inr (mi_matrix [[0, 0], [0, 1], [1, 0], [1, 1]] [[0], [0], [1], [1]]) \<and>
   mutual_info_gap [[0, 0], [0, 1], [1, 0], [1, 1]] [[0], [0], [1], [1]]
     = Inr (mig_formula (mi_matrix [[0, 0], [0, 1], [1, 0], [1, 1]] [[0], [0], [1], [1]])
              [[0], [0], [1], [1]])"
  using mutual_info_gap_is_formula
          [of "[[0, 0], [0, 1], [1, 0], [1, 1]]" "[[0], [0], [1], [1]]"]
  by (simp add: shape0_def shape1_def)

lemma shape0_permute_cols [simp]: "shape0 (permute_cols perm m) = shape0 m"
  by (simp add: permute_cols_def shape0_def)

lemma length_perm:
  assumes "mset perm = mset [0..<n]"
  shows "length perm = n"
proof -
  from assms have "size (mset perm) = size (mset [0..<n])" by (rule arg_cong)
  then show ?thesis by simp
qed

lemma shape1_permute_cols:
  assumes "mset perm = mset [0..<shape1 m]"
  shows "shape1 (permute_cols perm m) = shape1 m"
proof (cases m)
  case Nil
  then show ?thesis by (simp add: permute_cols_def shape1_def)
next
  case (Cons r rs)
  then show ?thesis
    using length_perm[OF assms] by (simp add: permute_cols_def shape1_def)
qed

lemma col_permute_cols:
  assumes "i < length perm"
  shows "col (permute_cols perm m) i = col m (perm ! i)"
  using assms by (simp add: col_def permute_cols_def)

lemma map_nth_fun: "map (\<lambda>i. f (xs ! i)) [0..<length xs] = map f xs"
proof -
  have "map (\<lambda>i. f (xs ! i)) [0..<length xs] = map f (map (\<lambda>i. xs ! i) [0..<length xs])"
    by (simp add: comp_def)
  then show ?thesis by (simp only: map_nth)
qed

lemma mi_matrix_permute:
  assumes "mset perm = mset [0..<shape1 codes]"
  shows "mi_matrix (permute_cols perm codes) factors
           = map (\<lambda>p. mi_matrix codes factors ! p) perm"
proof -
  let ?row = "\<lambda>p. map (\<lambda>j. projr (mutual_info_score (col factors j) (col codes p)))
                       [0..<shape1 factors]"
  have len: "length perm = shape1 codes" using length_perm[OF assms] .
  have "mi_matrix (permute_cols perm codes) factors
          = map (\<lambda>i. ?row (perm ! i)) [0..<length perm]"
    unfolding mi_matrix_def shape1_permute_cols[OF assms] len[symmetric]
    by (rule map_cong[OF refl]) (simp add: col_permute_cols)
  also have "\<dots> = map ?row perm"
    by (rule map_nth_fun)
  also have "\<dots> = map (\<lambda>p. mi_matrix codes factors ! p) perm"
  proof (rule map_cong[OF refl])
    fix p assume "p \<in> set perm"
    then have "p \<in> set [0..<shape1 codes]"
      using mset_eq_setD[OF assms] by simp
    then show "?row p = mi_matrix codes factors ! p"
      by (simp add: mi_matrix_def)
  qed
  finally show ?thesis .
qed

lemma np_sort_axis0_permute:
  assumes perm: "mset perm = mset [0..<length m]"
    and rect: "\<forall>r\<in>set m. length r = k"
  shows "np_sort_axis0 (map (\<lambda>p. m ! p) perm) = np_sort_axis0 m"
proof (cases "m = []")
  case True
  with perm show ?thesis by simp
next
  case False
  let ?m' = "map (\<lambda>p. m ! p) perm"
  have len: "length perm = length m" using length_perm[OF perm] .
  have in_m: "m ! p \<in> set m" if "p \<in> set perm" for p
  proof -
    have "p \<in> set [0..<length m]" using that mset_eq_setD[OF perm] by simp
    then show ?thesis by simp
  qed
  have ne': "?m' \<noteq> []" using False len by auto
  have "\<forall>r\<in>set ?m'. length r = k" using in_m rect by auto
  then have s1: "shape1 ?m' = shape1 m"
    using shape1_nonempty[OF ne'] shape1_nonempty[OF False rect] by simp
  have cols: "sort (col ?m' j) = sort (col m j)" for j
  proof -
    have "col m j = map (\<lambda>p. m ! p ! j) [0..<length m]"
      unfolding col_def by (subst map_nth_fun[symmetric]) simp
    then have "mset (col m j) = image_mset (\<lambda>p. m ! p ! j) (mset [0..<length m])"
      by (simp del: mset_upt)
    moreover have "mset (col ?m' j) = image_mset (\<lambda>p. m ! p ! j) (mset perm)"
      by (simp add: col_def comp_def flip: mset_map)
    ultimately have "mset (col ?m' j) = mset (col m j)"
      using perm by simp
    then show ?thesis
      by (intro properties_for_sort) simp_all
  qed
  then have "(sort \<circ> col ?m') = (sort \<circ> col m)"
    by (intro ext) (simp add: comp_def)
  then show ?thesis
    by (simp add: np_sort_axis0_def shape0_def columns_def s1 len)
qed

lemma gap_of_mi_permute:
  assumes "mset perm = mset [0..<length m]" and "\<forall>r\<in>set m. length r = k"
  shows "gap_of_mi (map (\<lambda>p. m ! p) perm) factors = gap_of_mi m factors"
  by (simp add: gap_of_mi_def np_sort_axis0_permute[OF assms])

text \<open>
  C7. Reordering the code columns of the representations by a permutation \<open>perm\<close> of the
  column indices (\<open>representations[:, perm]\<close>) does not change what \<open>mutual_info_gap\<close>
  returns, be it a value or an exception.
\<close>

theorem mutual_info_gap_permutation_invariant:
  assumes "mset perm = mset [0..<shape1 representations]"
  shows "mutual_info_gap (permute_cols perm representations) factors
           = mutual_info_gap representations factors"
proof (cases "shape0 representations = shape0 factors")
  case True
  have "gap_of_mi (map (\<lambda>p. mi_matrix representations factors ! p) perm) factors
          = gap_of_mi (mi_matrix representations factors) factors"
    using assms by (intro gap_of_mi_permute[OF _ rows_mi_matrix]) simp
  then show ?thesis
    using True
    by (simp add: mutual_info_gap_gap_of_mi discrete_mutual_info_Inr mi_matrix_permute[OF assms])
next
  case False
  then show ?thesis
    by (simp add: mutual_info_gap_gap_of_mi discrete_mutual_info_mismatch
          shape1_permute_cols[OF assms])
qed

theorem mutual_info_gap_permutation_invariant_witness:
  "mset [1, 0] = mset [0..<shape1 [[0, 0], [0, 1], [1, 0], [1, 1::int]]] \<and>
   mutual_info_gap (permute_cols [1, 0] [[0, 0], [0, 1], [1, 0], [1, 1]]) [[0], [0], [1], [1]]
     = mutual_info_gap [[0, 0], [0, 1], [1, 0], [1, 1]] [[0], [0], [1], [1]]"
proof -
  have perm: "mset [1, 0] = mset [0..<shape1 [[0, 0], [0, 1], [1, 0], [1, 1::int]]]"
    by (simp add: shape1_def upt_conv_Cons)
  from mutual_info_gap_permutation_invariant[OF perm] perm show ?thesis
    by blast
qed

text \<open>
  C9, as the claim words it, fails for a factors matrix whose number of rows differs from that
  of the representations: with one code column of two rows and one factor column of one row,
  \<open>mutual_info_score\<close> raises \<open>ValueError\<close> at line 135, before the sorted matrix is read.
  It raises there as well on the columns of matrices without rows, which are empty label
  vectors.
\<close>

theorem single_code_column_row_mismatch:
  "mutual_info_gap [[0], [1]] [[0]]
     = Inl (ValueError ''Found input variables with inconsistent numbers of samples'') \<and>
   mutual_info_score [] [] = Inl (ValueError ''math domain error'')"
  by (simp add: mutual_info_gap_def discrete_mutual_info_def shape1_def col_def
        mutual_info_score_def)

text \<open>
  C9, as the code has it. With exactly one code column, \<open>mutual_info_gap\<close> raises IndexError
  when it reads row 1 of the sorted matrix, the second-best code, provided the factors have
  as many rows as the representations, at least one, or no column at all; with a different
  number of rows and at least one factor column it raises the \<open>ValueError\<close> of
  \<open>mutual_info_score\<close> instead. Whenever it returns a value, the representations have at
  least two code columns.
\<close>

theorem single_code_column_IndexError:
  "(shape1 representations = 1 \<and>
      (1 \<le> shape0 representations \<and> shape0 representations = shape0 factors
       \<or> shape1 factors = 0) \<longrightarrow>
      mutual_info_gap representations factors = Inl (IndexError (out_of_bounds 1 1)))
   \<and> (shape1 representations = 1 \<and> shape0 representations \<noteq> shape0 factors \<and>
        1 \<le> shape1 factors \<longrightarrow>
      mutual_info_gap representations factors
        = Inl (ValueError ''Found input variables with inconsistent numbers of samples''))
   \<and> ((\<exists>v. mutual_info_gap representations factors = Inr v) \<longrightarrow>
        2 \<le> shape1 representations)"
proof (intro conjI impI)
  assume a: "shape1 representations = 1 \<and>
      (1 \<le> shape0 representations \<and> shape0 representations = shape0 factors
       \<or> shape1 factors = 0)"
  show "mutual_info_gap representations factors = Inl (IndexError (out_of_bounds 1 1))"
  proof (cases "shape0 representations = shape0 factors")
    case True
    then have "discrete_mutual_info representations factors
                 = Inr (mi_matrix representations factors)"
      by (simp add: discrete_mutual_info_Inr)
    moreover have "gap_of_mi (mi_matrix representations factors) factors
                     = Inl (IndexError (out_of_bounds 1 1))"
      using a by (intro gap_of_mi_short) simp
    ultimately show ?thesis
      by (simp add: mutual_info_gap_gap_of_mi)
  next
    case False
    with a have k: "shape1 factors = 0" by simp
    have "discrete_mutual_info representations factors = Inr [[]]"
      using a k by (simp add: discrete_mutual_info_mismatch[OF False])
    moreover have "gap_of_mi [[]] factors = Inl (IndexError (out_of_bounds 1 1))"
      by (intro gap_of_mi_short) simp
    ultimately show ?thesis
      by (simp add: mutual_info_gap_gap_of_mi)
  qed
next
  assume "shape1 representations = 1 \<and> shape0 representations \<noteq> shape0 factors \<and>
        1 \<le> shape1 factors"
  then show "mutual_info_gap representations factors
        = Inl (ValueError ''Found input variables with inconsistent numbers of samples'')"
    by (simp add: mutual_info_gap_gap_of_mi discrete_mutual_info_mismatch)
next
  assume "\<exists>v. mutual_info_gap representations factors = Inr v"
  then obtain v m where m: "discrete_mutual_info representations factors = Inr m"
    and v: "gap_of_mi m factors = Inr v"
    by (auto simp: mutual_info_gap_gap_of_mi split: sum.splits)
  from gap_of_mi_Inr_length[OF v] discrete_mutual_info_length[OF m]
  show "2 \<le> shape1 representations" by simp
qed

theorem single_code_column_IndexError_witness:
  "shape1 [[0], [0], [1], [1::int]] = 1 \<and>
   1 \<le> shape0 [[0], [0], [1], [1::int]] \<and>
   shape0 [[0], [0], [1], [1::int]] = shape0 [[0], [0], [1], [1::int]] \<and>
   mutual_info_gap [[0], [0], [1], [1]] [[0], [0], [1], [1]]
     = Inl (IndexError (out_of_bounds 1 1)) \<and>
   shape1 [[0], [1], [2::int]] = 1 \<and>
   shape0 [[0], [1], [2::int]] \<noteq> shape0 [[0], [1::int]] \<and>
   1 \<le> shape1 [[0], [1::int]] \<and>
   mutual_info_gap [[0], [1], [2]] [[0], [1]]
     = Inl (ValueError ''Found input variables with inconsistent numbers of samples'') \<and>
   (\<exists>v. mutual_info_gap [[0, 0], [0, 1], [1, 0], [1, 1]] [[0], [0], [1], [1]] = Inr v) \<and>
   2 \<le> shape1 [[0, 0], [0, 1], [1, 0], [1, 1::int]]"
proof -
  have a: "shape1 [[0], [0], [1], [1::int]] = 1" "1 \<le> shape0 [[0], [0], [1], [1::int]]"
    "shape0 [[0], [0], [1], [1::int]] = shape0 [[0], [0], [1], [1::int]]"
    by (simp_all add: shape0_def shape1_def)
  have b: "shape1 [[0], [1], [2::int]] = 1"
    "shape0 [[0], [1], [2::int]] \<noteq> shape0 [[0], [1::int]]" "1 \<le> shape1 [[0], [1::int]]"
    by (simp_all add: shape0_def shape1_def)
  have "gap_of_mi (mi_matrix [[0, 0], [0, 1], [1, 0], [1, 1]] [[0], [0], [1], [1]])
            [[0], [0], [1], [1]]
          = Inr (mig_formula (mi_matrix [[0, 0], [0, 1], [1, 0], [1, 1]] [[0], [0], [1], [1]])
                   [[0], [0], [1], [1]])"
    by (intro gap_of_mi_formula rows_mi_matrix) (simp add: shape1_def)
  then have c: "\<exists>v. mutual_info_gap [[0, 0], [0, 1], [1, 0], [1, 1]] [[0], [0], [1], [1]] = Inr v"
    by (simp add: mutual_info_gap_gap_of_mi discrete_mutual_info_Inr shape0_def)
  from single_code_column_IndexError [of "[[0], [0], [1], [1]]" "[[0], [0], [1], [1]]"]
    single_code_column_IndexError [of "[[0], [1], [2]]" "[[0], [1]]"]
    single_code_column_IndexError [of "[[0, 0], [0, 1], [1, 0], [1, 1]]" "[[0], [0], [1], [1]]"]
    a b c
  show ?thesis by blast
qed

subsection \<open>Facts about the relative strength\<close>
















lemma length_identity [simp]: "length (identity_matrix n) = n"
  by (simp add: identity_matrix_def)









subsection \<open>Facts about disentanglement and completeness\<close>




lemma smoothed_Nil_iff [simp]: "smoothed line = [] \<longleftrightarrow> line = []"
  by (simp add: smoothed_def)






lemma shape1_ones_like [simp]: "shape1 (ones_like m) = shape1 m"
  by (cases m) (simp_all add: ones_like_def shape1_def)














lemma length_columns [simp]: "length (columns m) = shape1 m"
  by (simp add: columns_def)


















lemma length_diag [simp]: "length (diag_matrix as) = length as"
  by (simp add: diag_matrix_def)



















end
